theory Spec2Isabelle
  imports Main
begin

section \<open>JavaScript strings and values\<close>

text \<open>
  Strings are lists of characters. A \<^typ>\<open>char\<close> stands for one code unit below 256, so
  the white space that \<^verbatim>\<open>String.prototype.trim\<close> strips is, in this range, the
  characters TAB, LF, VT, FF, CR, SPACE and NBSP.
\<close>

definition js_whitespace :: "char \<Rightarrow> bool" where
  "js_whitespace c \<longleftrightarrow>
     c \<in> set [CHR 0x09, CHR 0x0A, CHR 0x0B, CHR 0x0C, CHR 0x0D, CHR '' '', CHR 0xA0]"

text \<open>\<^verbatim>\<open>s.trim()\<close>: white space removed from both ends.\<close>

definition trim :: "string \<Rightarrow> string" where
  "trim s = rev (dropWhile js_whitespace (rev (dropWhile js_whitespace s)))"

text \<open>
  \<^verbatim>\<open>s.split(c)\<close> for a one-character separator: the result is never empty,
  \<^verbatim>\<open>"".split("/")\<close> is \<^verbatim>\<open>[""]\<close> and \<^verbatim>\<open>"a/".split("/")\<close> is \<^verbatim>\<open>["a", ""]\<close>.
\<close>

fun split_str :: "char \<Rightarrow> string \<Rightarrow> string list" where
  "split_str c [] = [[]]"
| "split_str c (x # xs) =
     (if x = c then [] # split_str c xs
      else (case split_str c xs of w # ws \<Rightarrow> (x # w) # ws | [] \<Rightarrow> [[x]]))"

text \<open>\<^verbatim>\<open>xs.pop()\<close> read for its value: the last element, \<^verbatim>\<open>undefined\<close> on an empty array.\<close>

definition pop :: "'a list \<Rightarrow> 'a option" where
  "pop xs = (if xs = [] then None else Some (last xs))"

text \<open>
  An optional string is falsy when it is \<^verbatim>\<open>undefined\<close> or empty.
  \<open>js_or a d\<close> is \<^verbatim>\<open>a || d\<close> where \<open>d\<close> is a string.
\<close>

fun truthy :: "string option \<Rightarrow> bool" where
  "truthy None = False"
| "truthy (Some s) = (s \<noteq> [])"

fun js_or :: "string option \<Rightarrow> string \<Rightarrow> string" where
  "js_or None d = d"
| "js_or (Some s) d = (if s = [] then d else s)"

section \<open>The service contract (services/api.ts)\<close>

record video =
  video_id :: string
  video_url :: string
  video_title :: "string option"
  video_duration :: "int option"
  video_filename :: "string option"
  video_file_size :: "int option"
  video_minio_object_name :: "string option"
  video_download_date :: "string option"
  video_meta :: "(string \<times> string) list option"

record pdf =
  pdf_id :: string
  pdf_url :: string
  pdf_filename :: "string option"
  pdf_file_size :: "int option"
  pdf_minio_object_name :: "string option"
  pdf_download_date :: "string option"
  pdf_meta :: "(string \<times> string) list option"

record ScrapeRequest =
  request_urls :: "string list"
  request_keywords :: "string list"

record ScrapeStatus =
  scrape_status :: string
  scrape_message :: string
  scrape_task_id :: "string option"

type_synonym blob = string

text \<open>The value a rejected promise carries.\<close>

datatype js_error = AxiosError string

text \<open>A request handed to the HTTP client: the method with its path, and the body of a POST.\<close>

datatype http_request =
  GET string
| POST string "ScrapeRequest option"

text \<open>The timers of the page: the splash timer of the App and the delayed refresh.\<close>

datatype timer = SplashTimer | RefreshTimer

text \<open>
  Everything outside the components that the code acts on: the alerts shown, the console,
  the requests issued so far, the files handed to \<^verbatim>\<open>downloadFile\<close>, and the pending
  timeouts.
\<close>

record env =
  alerts :: "string list"
  console_errors :: "string list"
  requests :: "http_request list"
  saved :: "(blob \<times> string) list"
  timers :: "timer list"

definition alert :: "string \<Rightarrow> env \<Rightarrow> env" where
  "alert msg e = e\<lparr>alerts := alerts e @ [msg]\<rparr>"

definition console_error :: "string \<Rightarrow> env \<Rightarrow> env" where
  "console_error msg e = e\<lparr>console_errors := console_errors e @ [msg]\<rparr>"

definition setTimeout :: "timer \<Rightarrow> env \<Rightarrow> env" where
  "setTimeout t e = e\<lparr>timers := timers e @ [t]\<rparr>"

definition clearTimeout :: "timer \<Rightarrow> env \<Rightarrow> env" where
  "clearTimeout t e = e\<lparr>timers := removeAll t (timers e)\<rparr>"

text \<open>
  Each operation of \<^verbatim>\<open>apiService\<close> issues its request and then waits for the response;
  the model records the request, the response arrives later as an argument of the caller's
  continuation.
\<close>

definition scrapeContent :: "ScrapeRequest \<Rightarrow> env \<Rightarrow> env" where
  "scrapeContent request e = e\<lparr>requests := requests e @ [POST ''/scrape'' (Some request)]\<rparr>"

definition getVideos :: "env \<Rightarrow> env" where
  "getVideos e = e\<lparr>requests := requests e @ [GET ''/videos'']\<rparr>"

definition getPDFs :: "env \<Rightarrow> env" where
  "getPDFs e = e\<lparr>requests := requests e @ [GET ''/pdfs'']\<rparr>"

definition downloadVideo :: "string \<Rightarrow> env \<Rightarrow> env" where
  "downloadVideo videoId e =
     e\<lparr>requests := requests e @ [GET (''/videos/'' @ videoId @ ''/download'')]\<rparr>"

definition downloadPDF :: "string \<Rightarrow> env \<Rightarrow> env" where
  "downloadPDF pdfId e =
     e\<lparr>requests := requests e @ [GET (''/pdfs/'' @ pdfId @ ''/download'')]\<rparr>"

text \<open>\<^verbatim>\<open>downloadFile(blob, filename)\<close>: the file-save step.\<close>

definition downloadFile :: "blob \<Rightarrow> string \<Rightarrow> env \<Rightarrow> env" where
  "downloadFile b name e = e\<lparr>saved := saved e @ [(b, name)]\<rparr>"

section \<open>Control flow of the asynchronous handlers\<close>

text \<open>
  An \<^verbatim>\<open>async\<close> handler runs to its \<^verbatim>\<open>await\<close> and is resumed when the awaited
  promise settles. Its model is a pair of functions: \<open>f_begin\<close> runs up to the
  \<^verbatim>\<open>await\<close> and says whether the handler returned before it (\<open>Done\<close>) or is suspended
  with its request issued (\<open>Await\<close>); \<open>f_resume\<close> takes the settled value (\<open>Inl\<close> a
  rejection, \<open>Inr\<close> the response) and runs the rest. Other handlers may run between the two.
\<close>

datatype 's step = Done 's | Await 's

text \<open>
  A command returns the error it throws, if any, with the state it leaves.
  \<open>try_catch_finally\<close> is the statement of that name: the handler runs when the body
  throws, the last block always runs, and an error thrown by the handler or by the last
  block is the one that escapes.
\<close>

type_synonym 's cmd = "'s \<Rightarrow> js_error option \<times> 's"

definition try_catch_finally :: "'s cmd \<Rightarrow> (js_error \<Rightarrow> 's cmd) \<Rightarrow> 's cmd \<Rightarrow> 's cmd" where
  "try_catch_finally body handler fin s =
     (case body s of
        (None, s1) \<Rightarrow> fin s1
      | (Some e, s1) \<Rightarrow>
          (case handler e s1 of
             (r2, s2) \<Rightarrow>
               (case fin s2 of
                  (None, s3) \<Rightarrow> (r2, s3)
                | (Some e3, s3) \<Rightarrow> (Some e3, s3))))"

section \<open>VideoManager (components/VideoManager.tsx)\<close>

record VideoManager_state =
  vm_videos :: "video list"
  vm_loading :: bool
  vm_downloading :: "string set"

text \<open>The state of a freshly mounted component, from its three \<^verbatim>\<open>useState\<close> calls.\<close>

definition VideoManager_init :: VideoManager_state where
  "VideoManager_init = \<lparr>vm_videos = [], vm_loading = True, vm_downloading = {}\<rparr>"

definition fetchVideos_begin :: "VideoManager_state \<times> env \<Rightarrow> VideoManager_state \<times> env" where
  "fetchVideos_begin = (\<lambda>(st, e). (st\<lparr>vm_loading := True\<rparr>, getVideos e))"

definition fetchVideos_resume ::
  "js_error + video list \<Rightarrow> (VideoManager_state \<times> env) cmd" where
  "fetchVideos_resume r =
     try_catch_finally
       (\<lambda>(st, e). case r of
            Inl err \<Rightarrow> (Some err, (st, e))
          | Inr data \<Rightarrow> (None, (st\<lparr>vm_videos := data\<rparr>, e)))
       (\<lambda>err (st, e). (None, (st, console_error ''Failed to fetch videos:'' e)))
       (\<lambda>(st, e). (None, (st\<lparr>vm_loading := False\<rparr>, e)))"

text \<open>A whole call of \<^verbatim>\<open>fetchVideos\<close> with nothing running in between.\<close>

definition fetchVideos :: "js_error + video list \<Rightarrow> (VideoManager_state \<times> env) cmd" where
  "fetchVideos r s = fetchVideos_resume r (fetchVideos_begin s)"

definition video_download_filename :: "video \<Rightarrow> string" where
  "video_download_filename v =
     js_or (video_filename v)
       (js_or (pop (split_str CHR ''/'' (video_url v)))
          (''video_'' @ video_id v @ ''.mp4''))"

definition handleDownload_video_begin ::
  "video \<Rightarrow> VideoManager_state \<times> env \<Rightarrow> (VideoManager_state \<times> env) step" where
  "handleDownload_video_begin v = (\<lambda>(st, e).
     if \<not> truthy (video_minio_object_name v)
     then Done (st, alert ''Video not available for download'' e)
     else Await (st\<lparr>vm_downloading := insert (video_id v) (vm_downloading st)\<rparr>,
                 downloadVideo (video_id v) e))"

definition handleDownload_video_resume ::
  "video \<Rightarrow> js_error + blob \<Rightarrow> (VideoManager_state \<times> env) cmd" where
  "handleDownload_video_resume v r =
     try_catch_finally
       (\<lambda>(st, e). case r of
            Inl err \<Rightarrow> (Some err, (st, e))
          | Inr b \<Rightarrow> (None, (st, downloadFile b (video_download_filename v) e)))
       (\<lambda>err (st, e). (None, (st, alert ''Failed to download video''
                                    (console_error ''Failed to download video:'' e))))
       (\<lambda>(st, e). (None, (st\<lparr>vm_downloading := vm_downloading st - {video_id v}\<rparr>, e)))"

text \<open>A whole call of \<^verbatim>\<open>handleDownload\<close> with nothing running in between.\<close>

definition handleDownload_video ::
  "video \<Rightarrow> js_error + blob \<Rightarrow> (VideoManager_state \<times> env) cmd" where
  "handleDownload_video v r s =
     (case handleDownload_video_begin v s of
        Done s' \<Rightarrow> (None, s')
      | Await s' \<Rightarrow> handleDownload_video_resume v r s')"

text \<open>
  What the component shows. A card carries its item and its download button: \<open>None\<close>
  when the button is not rendered, \<open>Some d\<close> when it is, with \<open>d\<close> its
  \<^verbatim>\<open>disabled\<close> attribute. The list views carry the number shown in the heading.
\<close>

record 'a card =
  card_item :: 'a
  card_download_button :: "bool option"

datatype 'a view = Spinner | EmptyList nat | Grid nat "'a card list"

text \<open>The items whose cards a view shows, and the number in its heading.\<close>

fun shown_items :: "'a view \<Rightarrow> 'a list" where
  "shown_items Spinner = []"
| "shown_items (EmptyList n) = []"
| "shown_items (Grid n cards) = map card_item cards"

fun heading_count :: "'a view \<Rightarrow> nat option" where
  "heading_count Spinner = None"
| "heading_count (EmptyList n) = Some n"
| "heading_count (Grid n cards) = Some n"

definition video_card :: "VideoManager_state \<Rightarrow> video \<Rightarrow> video card" where
  "video_card st v =
     \<lparr>card_item = v,
      card_download_button =
        (if truthy (video_minio_object_name v)
         then Some (video_id v \<in> vm_downloading st) else None)\<rparr>"

definition VideoManager_render :: "VideoManager_state \<Rightarrow> video view" where
  "VideoManager_render st =
     (if vm_loading st then Spinner
      else if length (vm_videos st) = 0 then EmptyList (length (vm_videos st))
      else Grid (length (vm_videos st)) (map (video_card st) (take 3 (vm_videos st))))"

text \<open>
  A click on the download button of the \<open>i\<close>-th card shown. The handler runs only when
  that button is rendered and not disabled: a disabled button dispatches no click.
\<close>

definition click_download_video ::
  "nat \<Rightarrow> VideoManager_state \<times> env \<Rightarrow> (VideoManager_state \<times> env) step" where
  "click_download_video i s =
     (case VideoManager_render (fst s) of
        Grid n cards \<Rightarrow>
          (if i < length cards
           then (case card_download_button (cards ! i) of
                   Some False \<Rightarrow> handleDownload_video_begin (card_item (cards ! i)) s
                 | _ \<Rightarrow> Done s)
           else Done s)
      | _ \<Rightarrow> Done s)"

section \<open>PDFManager (components/PDFManager.tsx)\<close>

record PDFManager_state =
  pm_pdfs :: "pdf list"
  pm_loading :: bool
  pm_downloading :: "string set"

definition PDFManager_init :: PDFManager_state where
  "PDFManager_init = \<lparr>pm_pdfs = [], pm_loading = True, pm_downloading = {}\<rparr>"

definition fetchPDFs_begin :: "PDFManager_state \<times> env \<Rightarrow> PDFManager_state \<times> env" where
  "fetchPDFs_begin = (\<lambda>(st, e). (st\<lparr>pm_loading := True\<rparr>, getPDFs e))"

definition fetchPDFs_resume :: "js_error + pdf list \<Rightarrow> (PDFManager_state \<times> env) cmd" where
  "fetchPDFs_resume r =
     try_catch_finally
       (\<lambda>(st, e). case r of
            Inl err \<Rightarrow> (Some err, (st, e))
          | Inr data \<Rightarrow> (None, (st\<lparr>pm_pdfs := data\<rparr>, e)))
       (\<lambda>err (st, e). (None, (st, console_error ''Failed to fetch PDFs:'' e)))
       (\<lambda>(st, e). (None, (st\<lparr>pm_loading := False\<rparr>, e)))"

definition fetchPDFs :: "js_error + pdf list \<Rightarrow> (PDFManager_state \<times> env) cmd" where
  "fetchPDFs r s = fetchPDFs_resume r (fetchPDFs_begin s)"

definition pdf_download_filename :: "pdf \<Rightarrow> string" where
  "pdf_download_filename p =
     js_or (pdf_filename p)
       (js_or (pop (split_str CHR ''/'' (pdf_url p)))
          (''document_'' @ pdf_id p @ ''.pdf''))"

definition handleDownload_pdf_begin ::
  "pdf \<Rightarrow> PDFManager_state \<times> env \<Rightarrow> (PDFManager_state \<times> env) step" where
  "handleDownload_pdf_begin p = (\<lambda>(st, e).
     if \<not> truthy (pdf_minio_object_name p)
     then Done (st, alert ''PDF not available for download'' e)
     else Await (st\<lparr>pm_downloading := insert (pdf_id p) (pm_downloading st)\<rparr>,
                 downloadPDF (pdf_id p) e))"

definition handleDownload_pdf_resume ::
  "pdf \<Rightarrow> js_error + blob \<Rightarrow> (PDFManager_state \<times> env) cmd" where
  "handleDownload_pdf_resume p r =
     try_catch_finally
       (\<lambda>(st, e). case r of
            Inl err \<Rightarrow> (Some err, (st, e))
          | Inr b \<Rightarrow> (None, (st, downloadFile b (pdf_download_filename p) e)))
       (\<lambda>err (st, e). (None, (st, alert ''Failed to download PDF''
                                    (console_error ''Failed to download PDF:'' e))))
       (\<lambda>(st, e). (None, (st\<lparr>pm_downloading := pm_downloading st - {pdf_id p}\<rparr>, e)))"

definition handleDownload_pdf ::
  "pdf \<Rightarrow> js_error + blob \<Rightarrow> (PDFManager_state \<times> env) cmd" where
  "handleDownload_pdf p r s =
     (case handleDownload_pdf_begin p s of
        Done s' \<Rightarrow> (None, s')
      | Await s' \<Rightarrow> handleDownload_pdf_resume p r s')"

definition pdf_card :: "PDFManager_state \<Rightarrow> pdf \<Rightarrow> pdf card" where
  "pdf_card st p =
     \<lparr>card_item = p,
      card_download_button =
        (if truthy (pdf_minio_object_name p)
         then Some (pdf_id p \<in> pm_downloading st) else None)\<rparr>"

definition PDFManager_render :: "PDFManager_state \<Rightarrow> pdf view" where
  "PDFManager_render st =
     (if pm_loading st then Spinner
      else if length (pm_pdfs st) = 0 then EmptyList (length (pm_pdfs st))
      else Grid (length (pm_pdfs st)) (map (pdf_card st) (pm_pdfs st)))"

definition click_download_pdf ::
  "nat \<Rightarrow> PDFManager_state \<times> env \<Rightarrow> (PDFManager_state \<times> env) step" where
  "click_download_pdf i s =
     (case PDFManager_render (fst s) of
        Grid n cards \<Rightarrow>
          (if i < length cards
           then (case card_download_button (cards ! i) of
                   Some False \<Rightarrow> handleDownload_pdf_begin (card_item (cards ! i)) s
                 | _ \<Rightarrow> Done s)
           else Done s)
      | _ \<Rightarrow> Done s)"

section \<open>ScraperInterface\<close>

datatype form_section = urls_section | keywords_section

record ScraperInterface_state =
  si_urls :: "string list"
  si_keywords :: "string list"
  si_loading :: bool
  si_showSuccess :: bool
  si_activeSection :: form_section

definition ScraperInterface_init :: ScraperInterface_state where
  "ScraperInterface_init =
     \<lparr>si_urls = [''''], si_keywords = [''''], si_loading = False, si_showSuccess = False,
      si_activeSection = urls_section\<rparr>"

text \<open>The two filters of \<^verbatim>\<open>handleSubmit\<close>: an entry is kept when its trimmed text is truthy.\<close>

definition validUrls :: "ScraperInterface_state \<Rightarrow> string list" where
  "validUrls st = filter (\<lambda>url. trim url \<noteq> []) (si_urls st)"

definition validKeywords :: "ScraperInterface_state \<Rightarrow> string list" where
  "validKeywords st = filter (\<lambda>keyword. trim keyword \<noteq> []) (si_keywords st)"

text \<open>
  The reading of the validation to compare with: each entry trimmed, the blank ones
  dropped, so that the entries sent are the trimmed ones.
\<close>

definition spec_trimmed_entries :: "string list \<Rightarrow> string list" where
  "spec_trimmed_entries xs = filter (\<lambda>x. x \<noteq> []) (map trim xs)"

text \<open>
  \<^verbatim>\<open>handleSubmit\<close>, with the \<^verbatim>\<open>onScrapeStart\<close> callback of the props as a parameter.
  The callback runs before the request is sent.
\<close>

definition handleSubmit_begin ::
  "(env \<Rightarrow> env) \<Rightarrow> ScraperInterface_state \<times> env \<Rightarrow> (ScraperInterface_state \<times> env) step" where
  "handleSubmit_begin onScrapeStart = (\<lambda>(st, e).
     if length (validUrls st) = 0 \<and> length (validKeywords st) = 0
     then Done (st, alert ''Please enter at least one URL or keyword'' e)
     else Await (st\<lparr>si_loading := True\<rparr>,
                 scrapeContent
                   \<lparr>request_urls = validUrls st, request_keywords = validKeywords st\<rparr>
                   (onScrapeStart e)))"

definition handleSubmit_resume ::
  "js_error + ScrapeStatus \<Rightarrow> (ScraperInterface_state \<times> env) cmd" where
  "handleSubmit_resume r =
     try_catch_finally
       (\<lambda>(st, e). case r of
            Inl err \<Rightarrow> (Some err, (st, e))
          | Inr accepted \<Rightarrow>
              (None, (st\<lparr>si_showSuccess := True, si_urls := [''''], si_keywords := ['''']\<rparr>, e)))
       (\<lambda>err (st, e). (None, (st, alert ''Failed to start scraping. Please try again.''
                                    (console_error ''Failed to start scraping:'' e))))
       (\<lambda>(st, e). (None, (st\<lparr>si_loading := False\<rparr>, e)))"

definition handleSubmit ::
  "(env \<Rightarrow> env) \<Rightarrow> js_error + ScrapeStatus \<Rightarrow> (ScraperInterface_state \<times> env) cmd" where
  "handleSubmit onScrapeStart r s =
     (case handleSubmit_begin onScrapeStart s of
        Done s' \<Rightarrow> (None, s')
      | Await s' \<Rightarrow> handleSubmit_resume r s')"

text \<open>
  The handlers of the form fields. An input calls \<^verbatim>\<open>updateUrl\<close> with the index of its
  own entry, so the index is below the length; that is the only case modelled.
\<close>

definition addUrl :: "ScraperInterface_state \<Rightarrow> ScraperInterface_state" where
  "addUrl st = st\<lparr>si_urls := si_urls st @ ['''']\<rparr>"

definition removeUrl :: "nat \<Rightarrow> ScraperInterface_state \<Rightarrow> ScraperInterface_state" where
  "removeUrl index st =
     (if length (si_urls st) > 1
      then st\<lparr>si_urls := take index (si_urls st) @ drop (Suc index) (si_urls st)\<rparr>
      else st)"

definition updateUrl :: "nat \<Rightarrow> string \<Rightarrow> ScraperInterface_state \<Rightarrow> ScraperInterface_state" where
  "updateUrl index v st = st\<lparr>si_urls := (si_urls st)[index := v]\<rparr>"

definition addKeyword :: "ScraperInterface_state \<Rightarrow> ScraperInterface_state" where
  "addKeyword st = st\<lparr>si_keywords := si_keywords st @ ['''']\<rparr>"

definition removeKeyword :: "nat \<Rightarrow> ScraperInterface_state \<Rightarrow> ScraperInterface_state" where
  "removeKeyword index st =
     (if length (si_keywords st) > 1
      then st\<lparr>si_keywords := take index (si_keywords st) @ drop (Suc index) (si_keywords st)\<rparr>
      else st)"

definition updateKeyword ::
  "nat \<Rightarrow> string \<Rightarrow> ScraperInterface_state \<Rightarrow> ScraperInterface_state" where
  "updateKeyword index v st = st\<lparr>si_keywords := (si_keywords st)[index := v]\<rparr>"

section \<open>App\<close>

datatype TabType = scraper | videos | pdfs | reports

text \<open>
  A handler suspended at its \<^verbatim>\<open>await\<close>: the number of the component instance it
  belongs to and, for a download, the item it was called with.
\<close>

datatype suspended =
  SubmitOf nat
| FetchVideosOf nat
| FetchPDFsOf nat
| DownloadVideoOf nat video
| DownloadPDFOf nat pdf

text \<open>
  The component mounted in the content area: the number of the instance and its state.
  The two managers are rendered with \<^verbatim>\<open>key={refreshTrigger}\<close>; their second number
  is the key the instance was last rendered with. While the splash screen is shown
  nothing is mounted. The reports tab is shown without its state and handlers.
\<close>

datatype content =
  NoContent
| ScraperView nat ScraperInterface_state
| VideoView nat nat VideoManager_state
| PdfView nat nat PDFManager_state
| ReportsView

text \<open>The tab a mounted component belongs to: the key of the animated container around it.\<close>

fun content_tab :: "content \<Rightarrow> TabType option" where
  "content_tab NoContent = None"
| "content_tab (ScraperView n st) = Some scraper"
| "content_tab (VideoView n k st) = Some videos"
| "content_tab (PdfView n k st) = Some pdfs"
| "content_tab ReportsView = Some reports"

text \<open>
  The state of the App with what is mounted under it. \<open>app_instances\<close> counts the
  component instances mounted so far, and \<open>app_suspended\<close> lists the handlers waiting
  for a response.
\<close>

record App_state =
  activeTab :: TabType
  refreshTrigger :: nat
  isLoading :: bool
  app_mounted :: bool
  app_content :: content
  app_instances :: nat
  app_suspended :: "suspended list"

text \<open>\<^verbatim>\<open>handleScrapeStart\<close>: the timeout is set and its handle is dropped.\<close>

definition handleScrapeStart :: "env \<Rightarrow> env" where
  "handleScrapeStart = setTimeout RefreshTimer"

text \<open>
  Mounting the component of the active tab as a new instance: its initial state, then its
  mount effect. The mount effect of a manager calls its fetch function, which is then
  suspended; the other two components have no mount effect.
\<close>

definition mount_content :: "App_state \<times> env \<Rightarrow> App_state \<times> env" where
  "mount_content = (\<lambda>(app, e).
     case activeTab app of
       scraper \<Rightarrow>
         (app\<lparr>app_content := ScraperView (app_instances app) ScraperInterface_init,
              app_instances := app_instances app + 1\<rparr>, e)
     | videos \<Rightarrow>
         (case fetchVideos_begin (VideoManager_init, e) of
            (st, e') \<Rightarrow>
              (app\<lparr>app_content := VideoView (app_instances app) (refreshTrigger app) st,
                   app_instances := app_instances app + 1,
                   app_suspended := app_suspended app @ [FetchVideosOf (app_instances app)]\<rparr>,
               e'))
     | pdfs \<Rightarrow>
         (case fetchPDFs_begin (PDFManager_init, e) of
            (st, e') \<Rightarrow>
              (app\<lparr>app_content := PdfView (app_instances app) (refreshTrigger app) st,
                   app_instances := app_instances app + 1,
                   app_suspended := app_suspended app @ [FetchPDFsOf (app_instances app)]\<rparr>,
               e'))
     | reports \<Rightarrow>
         (app\<lparr>app_content := ReportsView, app_instances := app_instances app + 1\<rparr>, e))"

text \<open>
  \<^verbatim>\<open>renderContent\<close> inside \<^verbatim>\<open><AnimatePresence mode="wait">\<close> and
  \<^verbatim>\<open><motion.div key={activeTab}>\<close>, after a state change of the App.
  While the splash screen is shown nothing is mounted; when nothing is mounted yet the
  component of the active tab is mounted at once. A mounted component of another tab is
  leaving: it stays mounted, as it was last rendered, until its exit animation is over,
  and the component of the active tab is not mounted before. A mounted component of the
  active tab is rendered again, also when it was leaving and its tab has become the
  active one again: a manager whose key has changed is replaced by a new instance, any
  other component is kept.
\<close>

definition renderContent :: "App_state \<times> env \<Rightarrow> App_state \<times> env" where
  "renderContent = (\<lambda>(app, e).
     if isLoading app then (app\<lparr>app_content := NoContent\<rparr>, e)
     else
       (case content_tab (app_content app) of
          None \<Rightarrow> mount_content (app, e)
        | Some tab \<Rightarrow>
            if tab \<noteq> activeTab app then (app, e)
            else
              (case app_content app of
                 VideoView n k st \<Rightarrow>
                   if k = refreshTrigger app then (app, e) else mount_content (app, e)
               | PdfView n k st \<Rightarrow>
                   if k = refreshTrigger app then (app, e) else mount_content (app, e)
               | _ \<Rightarrow> (app, e))))"

text \<open>
  The exit animation of a leaving component is over: it is unmounted and the component of
  the active tab is mounted, with the key of that moment.
\<close>

definition exit_complete :: "App_state \<times> env \<Rightarrow> App_state \<times> env" where
  "exit_complete = (\<lambda>(app, e).
     if app_mounted app \<and> \<not> isLoading app
     then (case content_tab (app_content app) of
             None \<Rightarrow> (app, e)
           | Some tab \<Rightarrow> if tab \<noteq> activeTab app then mount_content (app, e) else (app, e))
     else (app, e))"

text \<open>Mounting the App: the initial state and the effect that sets the splash timer.\<close>

definition App_mount :: "env \<Rightarrow> App_state \<times> env" where
  "App_mount e =
     renderContent
       (\<lparr>activeTab = scraper, refreshTrigger = 0, isLoading = True, app_mounted = True,
         app_content = NoContent, app_instances = 0, app_suspended = []\<rparr>,
        setTimeout SplashTimer e)"

text \<open>
  Tearing the App down runs the cleanup of its effect, which clears the splash timer.
  That is the only \<^verbatim>\<open>clearTimeout\<close> of the program.
\<close>

definition App_unmount :: "App_state \<times> env \<Rightarrow> App_state \<times> env" where
  "App_unmount = (\<lambda>(app, e).
     (app\<lparr>app_mounted := False, app_content := NoContent\<rparr>, clearTimeout SplashTimer e))"

definition setActiveTab :: "TabType \<Rightarrow> App_state \<times> env \<Rightarrow> App_state \<times> env" where
  "setActiveTab tab = (\<lambda>(app, e).
     if app_mounted app then renderContent (app\<lparr>activeTab := tab\<rparr>, e) else (app, e))"

text \<open>
  A pending timer fires once: it leaves the list and its callback runs. A state update
  of a component that is no longer mounted has no effect.
\<close>

definition fire_timer :: "timer \<Rightarrow> App_state \<times> env \<Rightarrow> App_state \<times> env" where
  "fire_timer t = (\<lambda>(app, e).
     if t \<notin> set (timers e) then (app, e)
     else
       (let e' = e\<lparr>timers := remove1 t (timers e)\<rparr>
        in if \<not> app_mounted app then (app, e')
           else (case t of
                   SplashTimer \<Rightarrow> renderContent (app\<lparr>isLoading := False\<rparr>, e')
                 | RefreshTimer \<Rightarrow>
                     renderContent (app\<lparr>refreshTrigger := refreshTrigger app + 1\<rparr>, e'))))"

subsection \<open>The events of the mounted components\<close>

text \<open>A change of the form fields of the mounted ScraperInterface.\<close>

definition edit_form ::
  "(ScraperInterface_state \<Rightarrow> ScraperInterface_state) \<Rightarrow> App_state \<times> env \<Rightarrow> App_state \<times> env"
  where
  "edit_form f = (\<lambda>(app, e).
     case app_content app of
       ScraperView n st \<Rightarrow> (app\<lparr>app_content := ScraperView n (f st)\<rparr>, e)
     | _ \<Rightarrow> (app, e))"

text \<open>
  Submitting the form of the mounted ScraperInterface: \<^verbatim>\<open>handleSubmit\<close> with
  \<^verbatim>\<open>handleScrapeStart\<close> as its \<^verbatim>\<open>onScrapeStart\<close>. The submit button is disabled
  while \<^verbatim>\<open>loading\<close> is set.
\<close>

definition submit_form :: "App_state \<times> env \<Rightarrow> App_state \<times> env" where
  "submit_form = (\<lambda>(app, e).
     case app_content app of
       ScraperView n st \<Rightarrow>
         if si_loading st then (app, e)
         else
           (case handleSubmit_begin handleScrapeStart (st, e) of
              Done (st', e') \<Rightarrow> (app\<lparr>app_content := ScraperView n st'\<rparr>, e')
            | Await (st', e') \<Rightarrow>
                (app\<lparr>app_content := ScraperView n st',
                     app_suspended := app_suspended app @ [SubmitOf n]\<rparr>, e'))
     | _ \<Rightarrow> (app, e))"

text \<open>
  The Refresh button of the mounted manager, which calls its fetch function. The button
  is not shown while the list is loading.
\<close>

definition click_refresh :: "App_state \<times> env \<Rightarrow> App_state \<times> env" where
  "click_refresh = (\<lambda>(app, e).
     case app_content app of
       VideoView n k st \<Rightarrow>
         if vm_loading st then (app, e)
         else
           (case fetchVideos_begin (st, e) of
              (st', e') \<Rightarrow>
                (app\<lparr>app_content := VideoView n k st',
                     app_suspended := app_suspended app @ [FetchVideosOf n]\<rparr>, e'))
     | PdfView n k st \<Rightarrow>
         if pm_loading st then (app, e)
         else
           (case fetchPDFs_begin (st, e) of
              (st', e') \<Rightarrow>
                (app\<lparr>app_content := PdfView n k st',
                     app_suspended := app_suspended app @ [FetchPDFsOf n]\<rparr>, e'))
     | _ \<Rightarrow> (app, e))"

text \<open>A click on the download button of the \<open>i\<close>-th card of the mounted manager.\<close>

definition click_download :: "nat \<Rightarrow> App_state \<times> env \<Rightarrow> App_state \<times> env" where
  "click_download i = (\<lambda>(app, e).
     case app_content app of
       VideoView n k st \<Rightarrow>
         (case click_download_video i (st, e) of
            Done (st', e') \<Rightarrow> (app\<lparr>app_content := VideoView n k st'\<rparr>, e')
          | Await (st', e') \<Rightarrow>
              (app\<lparr>app_content := VideoView n k st',
                   app_suspended := app_suspended app @ [DownloadVideoOf n (vm_videos st ! i)]\<rparr>,
               e'))
     | PdfView n k st \<Rightarrow>
         (case click_download_pdf i (st, e) of
            Done (st', e') \<Rightarrow> (app\<lparr>app_content := PdfView n k st'\<rparr>, e')
          | Await (st', e') \<Rightarrow>
              (app\<lparr>app_content := PdfView n k st',
                   app_suspended := app_suspended app @ [DownloadPDFOf n (pm_pdfs st ! i)]\<rparr>,
               e'))
     | _ \<Rightarrow> (app, e))"

text \<open>
  The state of the instance with number \<open>n\<close>, when that instance is the mounted one.
\<close>

fun scraper_instance :: "nat \<Rightarrow> content \<Rightarrow> ScraperInterface_state option" where
  "scraper_instance n (ScraperView m st) = (if m = n then Some st else None)"
| "scraper_instance n c = None"

fun video_instance :: "nat \<Rightarrow> content \<Rightarrow> (nat \<times> VideoManager_state) option" where
  "video_instance n (VideoView m k st) = (if m = n then Some (k, st) else None)"
| "video_instance n c = None"

fun pdf_instance :: "nat \<Rightarrow> content \<Rightarrow> (nat \<times> PDFManager_state) option" where
  "pdf_instance n (PdfView m k st) = (if m = n then Some (k, st) else None)"
| "pdf_instance n c = None"

text \<open>
  A response arrives for a suspended handler, which then runs to its end. When its
  instance is still mounted the handler acts on the state of that instance. When the
  instance has been unmounted the handler runs all the same, its state updates have no
  effect, and what it does to the environment remains; what that is does not depend on
  the state the handler is run from, and the initial state stands in for it.
\<close>

definition submit_settled ::
  "nat \<Rightarrow> js_error + ScrapeStatus \<Rightarrow> App_state \<times> env \<Rightarrow> App_state \<times> env" where
  "submit_settled n r = (\<lambda>(app, e).
     if SubmitOf n \<notin> set (app_suspended app) then (app, e)
     else
       (case scraper_instance n (app_content app) of
          Some st \<Rightarrow>
            (case handleSubmit_resume r (st, e) of
               (thrown, (st', e')) \<Rightarrow>
                 (app\<lparr>app_content := ScraperView n st',
                      app_suspended := remove1 (SubmitOf n) (app_suspended app)\<rparr>, e'))
        | None \<Rightarrow>
            (app\<lparr>app_suspended := remove1 (SubmitOf n) (app_suspended app)\<rparr>,
             snd (snd (handleSubmit_resume r (ScraperInterface_init, e))))))"

definition videos_settled ::
  "nat \<Rightarrow> js_error + video list \<Rightarrow> App_state \<times> env \<Rightarrow> App_state \<times> env" where
  "videos_settled n r = (\<lambda>(app, e).
     if FetchVideosOf n \<notin> set (app_suspended app) then (app, e)
     else
       (case video_instance n (app_content app) of
          Some (k, st) \<Rightarrow>
            (case fetchVideos_resume r (st, e) of
               (thrown, (st', e')) \<Rightarrow>
                 (app\<lparr>app_content := VideoView n k st',
                      app_suspended := remove1 (FetchVideosOf n) (app_suspended app)\<rparr>, e'))
        | None \<Rightarrow>
            (app\<lparr>app_suspended := remove1 (FetchVideosOf n) (app_suspended app)\<rparr>,
             snd (snd (fetchVideos_resume r (VideoManager_init, e))))))"

definition pdfs_settled ::
  "nat \<Rightarrow> js_error + pdf list \<Rightarrow> App_state \<times> env \<Rightarrow> App_state \<times> env" where
  "pdfs_settled n r = (\<lambda>(app, e).
     if FetchPDFsOf n \<notin> set (app_suspended app) then (app, e)
     else
       (case pdf_instance n (app_content app) of
          Some (k, st) \<Rightarrow>
            (case fetchPDFs_resume r (st, e) of
               (thrown, (st', e')) \<Rightarrow>
                 (app\<lparr>app_content := PdfView n k st',
                      app_suspended := remove1 (FetchPDFsOf n) (app_suspended app)\<rparr>, e'))
        | None \<Rightarrow>
            (app\<lparr>app_suspended := remove1 (FetchPDFsOf n) (app_suspended app)\<rparr>,
             snd (snd (fetchPDFs_resume r (PDFManager_init, e))))))"

definition video_download_settled ::
  "nat \<Rightarrow> video \<Rightarrow> js_error + blob \<Rightarrow> App_state \<times> env \<Rightarrow> App_state \<times> env" where
  "video_download_settled n v r = (\<lambda>(app, e).
     if DownloadVideoOf n v \<notin> set (app_suspended app) then (app, e)
     else
       (case video_instance n (app_content app) of
          Some (k, st) \<Rightarrow>
            (case handleDownload_video_resume v r (st, e) of
               (thrown, (st', e')) \<Rightarrow>
                 (app\<lparr>app_content := VideoView n k st',
                      app_suspended := remove1 (DownloadVideoOf n v) (app_suspended app)\<rparr>, e'))
        | None \<Rightarrow>
            (app\<lparr>app_suspended := remove1 (DownloadVideoOf n v) (app_suspended app)\<rparr>,
             snd (snd (handleDownload_video_resume v r (VideoManager_init, e))))))"

definition pdf_download_settled ::
  "nat \<Rightarrow> pdf \<Rightarrow> js_error + blob \<Rightarrow> App_state \<times> env \<Rightarrow> App_state \<times> env" where
  "pdf_download_settled n p r = (\<lambda>(app, e).
     if DownloadPDFOf n p \<notin> set (app_suspended app) then (app, e)
     else
       (case pdf_instance n (app_content app) of
          Some (k, st) \<Rightarrow>
            (case handleDownload_pdf_resume p r (st, e) of
               (thrown, (st', e')) \<Rightarrow>
                 (app\<lparr>app_content := PdfView n k st',
                      app_suspended := remove1 (DownloadPDFOf n p) (app_suspended app)\<rparr>, e'))
        | None \<Rightarrow>
            (app\<lparr>app_suspended := remove1 (DownloadPDFOf n p) (app_suspended app)\<rparr>,
             snd (snd (handleDownload_pdf_resume p r (PDFManager_init, e))))))"

subsection \<open>Runs of the page\<close>

text \<open>
  What can happen to the page: a timer fires, the user clicks or types, an exit animation
  ends, a response arrives, the App is torn down. The tabs can be clicked once the splash
  screen is gone, and an input can be typed into when it exists.
\<close>

datatype event =
  TimerFires timer
| TabClicked TabType
| ExitCompleted
| UrlTyped nat string
| UrlAdded
| UrlRemoved nat
| KeywordTyped nat string
| KeywordAdded
| KeywordRemoved nat
| FormSubmitted
| SubmitSettled nat "js_error + ScrapeStatus"
| RefreshClicked
| VideosSettled nat "js_error + video list"
| PDFsSettled nat "js_error + pdf list"
| DownloadClicked nat
| VideoDownloadSettled nat video "js_error + blob"
| PDFDownloadSettled nat pdf "js_error + blob"
| TornDown

fun dispatch :: "event \<Rightarrow> App_state \<times> env \<Rightarrow> App_state \<times> env" where
  "dispatch (TimerFires t) s = fire_timer t s"
| "dispatch (TabClicked tab) s = (if isLoading (fst s) then s else setActiveTab tab s)"
| "dispatch ExitCompleted s = exit_complete s"
| "dispatch (UrlTyped i v) s =
     edit_form (\<lambda>st. if i < length (si_urls st) then updateUrl i v st else st) s"
| "dispatch UrlAdded s = edit_form addUrl s"
| "dispatch (UrlRemoved i) s = edit_form (removeUrl i) s"
| "dispatch (KeywordTyped i v) s =
     edit_form (\<lambda>st. if i < length (si_keywords st) then updateKeyword i v st else st) s"
| "dispatch KeywordAdded s = edit_form addKeyword s"
| "dispatch (KeywordRemoved i) s = edit_form (removeKeyword i) s"
| "dispatch FormSubmitted s = submit_form s"
| "dispatch (SubmitSettled n r) s = submit_settled n r s"
| "dispatch RefreshClicked s = click_refresh s"
| "dispatch (VideosSettled n r) s = videos_settled n r s"
| "dispatch (PDFsSettled n r) s = pdfs_settled n r s"
| "dispatch (DownloadClicked i) s = click_download i s"
| "dispatch (VideoDownloadSettled n v r) s = video_download_settled n v r s"
| "dispatch (PDFDownloadSettled n p r) s = pdf_download_settled n p r s"
| "dispatch TornDown s = App_unmount s"

fun run :: "event list \<Rightarrow> App_state \<times> env \<Rightarrow> App_state \<times> env" where
  "run [] s = s"
| "run (ev # evs) s = run evs (dispatch ev s)"

text \<open>
  Three facts about the states a run reaches: behind the splash screen nothing is
  mounted, a mounted App without splash screen has a component mounted, and a manager
  mounted for the active tab carries the current key.
\<close>

definition key_current :: "App_state \<Rightarrow> bool" where
  "key_current app =
     ((isLoading app \<longrightarrow> app_content app = NoContent)
      \<and> (app_mounted app \<and> \<not> isLoading app \<longrightarrow> app_content app \<noteq> NoContent)
      \<and> (case app_content app of
           VideoView n k st \<Rightarrow> activeTab app = videos \<longrightarrow> k = refreshTrigger app
         | PdfView n k st \<Rightarrow> activeTab app = pdfs \<longrightarrow> k = refreshTrigger app
         | _ \<Rightarrow> True))"

text \<open>The manager, if any, that is mounted as the component of the active tab.\<close>

definition videos_present :: "App_state \<Rightarrow> bool" where
  "videos_present app =
     (case app_content app of VideoView n k st \<Rightarrow> activeTab app = videos | _ \<Rightarrow> False)"

definition pdfs_present :: "App_state \<Rightarrow> bool" where
  "pdfs_present app =
     (case app_content app of PdfView n k st \<Rightarrow> activeTab app = pdfs | _ \<Rightarrow> False)"

section \<open>Example data\<close>

definition example_env :: env where
  "example_env = \<lparr>alerts = [], console_errors = [], requests = [], saved = [], timers = []\<rparr>"

definition example_video :: video where
  "example_video =
     \<lparr>video_id = ''7'', video_url = ''https://x.org/clip.mp4'', video_title = None,
      video_duration = None, video_filename = None, video_file_size = None,
      video_minio_object_name = Some ''videos/7.mp4'', video_download_date = None,
      video_meta = None\<rparr>"

definition example_pdf :: pdf where
  "example_pdf =
     \<lparr>pdf_id = ''7'', pdf_url = ''https://x.org/report.pdf'', pdf_filename = None,
      pdf_file_size = None, pdf_minio_object_name = Some ''pdfs/7.pdf'',
      pdf_download_date = None, pdf_meta = None\<rparr>"

text \<open>A video list and a PDF list already fetched.\<close>

definition example_vm :: VideoManager_state where
  "example_vm = \<lparr>vm_videos = [example_video], vm_loading = False, vm_downloading = {}\<rparr>"

definition example_pm :: PDFManager_state where
  "example_pm = \<lparr>pm_pdfs = [example_pdf], pm_loading = False, pm_downloading = {}\<rparr>"

section \<open>Auxiliary facts\<close>

lemma trim_eq_Nil_iff: "trim s = [] \<longleftrightarrow> (\<forall>c\<in>set s. js_whitespace c)"
proof
  assume "trim s = []"
  then have "dropWhile js_whitespace (rev (dropWhile js_whitespace s)) = []"
    by (simp add: trim_def)
  then have "\<forall>c\<in>set (dropWhile js_whitespace s). js_whitespace c"
    by simp
  moreover have "\<forall>c\<in>set (takeWhile js_whitespace s). js_whitespace c"
    by (auto dest: set_takeWhileD)
  moreover have "set s = set (takeWhile js_whitespace s) \<union> set (dropWhile js_whitespace s)"
    by (metis set_append takeWhile_dropWhile_id)
  ultimately show "\<forall>c\<in>set s. js_whitespace c" by blast
next
  assume "\<forall>c\<in>set s. js_whitespace c"
  then show "trim s = []"
    by (auto simp: trim_def dest: set_dropWhileD)
qed

lemma split_str_not_Nil: "split_str c s \<noteq> []"
  by (induction s) (auto split: list.splits)

lemma handleDownload_video_resume_eq:
  "handleDownload_video_resume v r (st, e) =
     (None,
      (st\<lparr>vm_downloading := vm_downloading st - {video_id v}\<rparr>,
       (case r of
          Inl err \<Rightarrow> alert ''Failed to download video'' (console_error ''Failed to download video:'' e)
        | Inr b \<Rightarrow> downloadFile b (video_download_filename v) e)))"
  by (simp add: handleDownload_video_resume_def try_catch_finally_def split: sum.splits)

lemma handleDownload_pdf_resume_eq:
  "handleDownload_pdf_resume p r (st, e) =
     (None,
      (st\<lparr>pm_downloading := pm_downloading st - {pdf_id p}\<rparr>,
       (case r of
          Inl err \<Rightarrow> alert ''Failed to download PDF'' (console_error ''Failed to download PDF:'' e)
        | Inr b \<Rightarrow> downloadFile b (pdf_download_filename p) e)))"
  by (simp add: handleDownload_pdf_resume_def try_catch_finally_def split: sum.splits)

lemma fetchVideos_resume_eq:
  "fetchVideos_resume r (st, e) =
     (case r of
        Inl err \<Rightarrow> (None, (st\<lparr>vm_loading := False\<rparr>, console_error ''Failed to fetch videos:'' e))
      | Inr data \<Rightarrow> (None, (st\<lparr>vm_videos := data, vm_loading := False\<rparr>, e)))"
  by (simp add: fetchVideos_resume_def try_catch_finally_def split: sum.splits)

lemma fetchPDFs_resume_eq:
  "fetchPDFs_resume r (st, e) =
     (case r of
        Inl err \<Rightarrow> (None, (st\<lparr>pm_loading := False\<rparr>, console_error ''Failed to fetch PDFs:'' e))
      | Inr data \<Rightarrow> (None, (st\<lparr>pm_pdfs := data, pm_loading := False\<rparr>, e)))"
  by (simp add: fetchPDFs_resume_def try_catch_finally_def split: sum.splits)

lemma handleSubmit_resume_eq:
  "handleSubmit_resume r (st, e) =
     (case r of
        Inl err \<Rightarrow>
          (None, (st\<lparr>si_loading := False\<rparr>,
                  alert ''Failed to start scraping. Please try again.''
                    (console_error ''Failed to start scraping:'' e)))
      | Inr accepted \<Rightarrow>
          (None, (st\<lparr>si_showSuccess := True, si_urls := [''''], si_keywords := [''''],
                     si_loading := False\<rparr>, e)))"
  by (simp add: handleSubmit_resume_def try_catch_finally_def split: sum.splits)

lemma handleDownload_video_available:
  "truthy (video_minio_object_name v) \<Longrightarrow>
   handleDownload_video v r (st, e) =
     handleDownload_video_resume v r
       (st\<lparr>vm_downloading := insert (video_id v) (vm_downloading st)\<rparr>,
        downloadVideo (video_id v) e)"
  by (simp add: handleDownload_video_def handleDownload_video_begin_def)

lemma handleDownload_pdf_available:
  "truthy (pdf_minio_object_name p) \<Longrightarrow>
   handleDownload_pdf p r (st, e) =
     handleDownload_pdf_resume p r
       (st\<lparr>pm_downloading := insert (pdf_id p) (pm_downloading st)\<rparr>,
        downloadPDF (pdf_id p) e)"
  by (simp add: handleDownload_pdf_def handleDownload_pdf_begin_def)

section \<open>Downloads and list fetches\<close>

text \<open>
  Claim C4. Whatever the payload fetch gives, a rejection or the payload, the rest of
  \<^verbatim>\<open>handleDownload\<close> ends normally with the item's id out of the in-flight set, from
  any state it is resumed in. So does a whole call for an item that has an object name.
\<close>

theorem download_releases_in_flight:
  "video_id v \<notin> vm_downloading (fst (snd (handleDownload_video_resume v r sv)))
   \<and> fst (handleDownload_video_resume v r sv) = None
   \<and> pdf_id p \<notin> pm_downloading (fst (snd (handleDownload_pdf_resume p r sp)))
   \<and> fst (handleDownload_pdf_resume p r sp) = None
   \<and> (truthy (video_minio_object_name v) \<longrightarrow>
        video_id v \<notin> vm_downloading (fst (snd (handleDownload_video v r sv)))
        \<and> fst (handleDownload_video v r sv) = None)
   \<and> (truthy (pdf_minio_object_name p) \<longrightarrow>
        pdf_id p \<notin> pm_downloading (fst (snd (handleDownload_pdf p r sp)))
        \<and> fst (handleDownload_pdf p r sp) = None)"
proof -
  obtain st e where sv: "sv = (st, e)" by (cases sv)
  obtain st' e' where sp: "sp = (st', e')" by (cases sp)
  show ?thesis
    unfolding sv sp
    by (simp add: handleDownload_video_available handleDownload_pdf_available
        handleDownload_video_resume_eq handleDownload_pdf_resume_eq)
qed

theorem download_releases_in_flight_witness:
  "truthy (video_minio_object_name example_video)
   \<and> truthy (pdf_minio_object_name example_pdf)
   \<and> video_id example_video \<notin> vm_downloading (fst (snd
        (handleDownload_video example_video (Inl (AxiosError ''timeout''))
           (VideoManager_init, example_env))))
   \<and> pdf_id example_pdf \<notin> pm_downloading (fst (snd
        (handleDownload_pdf example_pdf (Inr ''%PDF'') (PDFManager_init, example_env))))"
  using download_releases_in_flight
    [of example_video "Inl (AxiosError ''timeout'')" "(VideoManager_init, example_env)"
        example_pdf "(PDFManager_init, example_env)"]
    download_releases_in_flight
    [of example_video "Inr ''%PDF''" "(VideoManager_init, example_env)"
        example_pdf "(PDFManager_init, example_env)"]
  by (simp add: example_video_def example_pdf_def)

text \<open>
  Claim C5. When the list fetch is rejected, \<^verbatim>\<open>fetchVideos\<close> and \<^verbatim>\<open>fetchPDFs\<close>
  keep the items they had, clear the loading flag, log the error and end normally: the
  error does not escape.
\<close>

theorem failed_refresh_keeps_items:
  "fetchVideos_resume (Inl err) (vst, e) =
     (None, (vst\<lparr>vm_loading := False\<rparr>, console_error ''Failed to fetch videos:'' e))
   \<and> fst (fetchVideos (Inl err) (vst, e)) = None
   \<and> vm_videos (fst (snd (fetchVideos (Inl err) (vst, e)))) = vm_videos vst
   \<and> vm_loading (fst (snd (fetchVideos (Inl err) (vst, e)))) = False
   \<and> fetchPDFs_resume (Inl err) (pst, e) =
     (None, (pst\<lparr>pm_loading := False\<rparr>, console_error ''Failed to fetch PDFs:'' e))
   \<and> fst (fetchPDFs (Inl err) (pst, e)) = None
   \<and> pm_pdfs (fst (snd (fetchPDFs (Inl err) (pst, e)))) = pm_pdfs pst
   \<and> pm_loading (fst (snd (fetchPDFs (Inl err) (pst, e)))) = False"
  by (simp add: fetchVideos_def fetchPDFs_def fetchVideos_begin_def fetchPDFs_begin_def
      fetchVideos_resume_eq fetchPDFs_resume_eq)

text \<open>
  Claim C9. For an item whose object name is absent or empty, \<^verbatim>\<open>handleDownload\<close>
  returns before its \<^verbatim>\<open>await\<close>: the component state, hence the in-flight set, is
  unchanged, and the only effect is the alert; no request is issued and no file is saved.
\<close>

theorem download_unavailable_is_local:
  "(\<not> truthy (video_minio_object_name v) \<longrightarrow>
      handleDownload_video_begin v (vst, e) =
        Done (vst, e\<lparr>alerts := alerts e @ [''Video not available for download'']\<rparr>)
      \<and> handleDownload_video v r (vst, e) =
        (None, (vst, e\<lparr>alerts := alerts e @ [''Video not available for download'']\<rparr>)))
   \<and> (\<not> truthy (pdf_minio_object_name p) \<longrightarrow>
      handleDownload_pdf_begin p (pst, e) =
        Done (pst, e\<lparr>alerts := alerts e @ [''PDF not available for download'']\<rparr>)
      \<and> handleDownload_pdf p r (pst, e) =
        (None, (pst, e\<lparr>alerts := alerts e @ [''PDF not available for download'']\<rparr>)))"
  by (simp add: handleDownload_video_def handleDownload_video_begin_def
      handleDownload_pdf_def handleDownload_pdf_begin_def alert_def)

theorem download_unavailable_is_local_witness:
  "\<not> truthy (video_minio_object_name (example_video\<lparr>video_minio_object_name := None\<rparr>))
   \<and> \<not> truthy (pdf_minio_object_name (example_pdf\<lparr>pdf_minio_object_name := Some ''''\<rparr>))
   \<and> handleDownload_video (example_video\<lparr>video_minio_object_name := None\<rparr>) (Inr ''data'')
        (VideoManager_init, example_env) =
      (None, (VideoManager_init,
              example_env\<lparr>alerts := [''Video not available for download'']\<rparr>))
   \<and> handleDownload_pdf (example_pdf\<lparr>pdf_minio_object_name := Some ''''\<rparr>) (Inr ''data'')
        (PDFManager_init, example_env) =
      (None, (PDFManager_init,
              example_env\<lparr>alerts := [''PDF not available for download'']\<rparr>))"
  using download_unavailable_is_local
    [of "example_video\<lparr>video_minio_object_name := None\<rparr>" VideoManager_init example_env
        "Inr ''data''" "example_pdf\<lparr>pdf_minio_object_name := Some ''''\<rparr>" PDFManager_init]
  by (simp add: example_env_def)

section \<open>The list views\<close>

lemma shown_items_video:
  "\<not> vm_loading st \<Longrightarrow> shown_items (VideoManager_render st) = take 3 (vm_videos st)"
  by (simp add: VideoManager_render_def video_card_def comp_def take_map [symmetric])

lemma shown_items_pdf:
  "\<not> pm_loading st \<Longrightarrow> shown_items (PDFManager_render st) = pm_pdfs st"
  by (simp add: PDFManager_render_def pdf_card_def comp_def)

lemma heading_count_video:
  "\<not> vm_loading st \<Longrightarrow> heading_count (VideoManager_render st) = Some (length (vm_videos st))"
  by (simp add: VideoManager_render_def)

lemma heading_count_pdf:
  "\<not> pm_loading st \<Longrightarrow> heading_count (PDFManager_render st) = Some (length (pm_pdfs st))"
  by (simp add: PDFManager_render_def)

lemma fetchVideos_ok:
  "fetchVideos (Inr data) (st, e) =
     (None, (st\<lparr>vm_videos := data, vm_loading := False\<rparr>, getVideos e))"
  by (simp add: fetchVideos_def fetchVideos_begin_def fetchVideos_resume_eq)

lemma fetchPDFs_ok:
  "fetchPDFs (Inr data) (st, e) =
     (None, (st\<lparr>pm_pdfs := data, pm_loading := False\<rparr>, getPDFs e))"
  by (simp add: fetchPDFs_def fetchPDFs_begin_def fetchPDFs_resume_eq)

text \<open>
  Claim C10. Once loading is over, the video view shows the cards of the first three
  videos of the list, that is \<open>min 3 (length videos)\<close> cards, while its heading gives the
  length of the whole list; the PDF view shows a card for every PDF. This holds in
  particular for the list a successful fetch has just stored.
\<close>

theorem media_view_shows_first_three:
  "(\<not> vm_loading vst \<longrightarrow>
      shown_items (VideoManager_render vst) = take 3 (vm_videos vst)
      \<and> length (shown_items (VideoManager_render vst)) = min 3 (length (vm_videos vst))
      \<and> heading_count (VideoManager_render vst) = Some (length (vm_videos vst)))
   \<and> (\<not> pm_loading pst \<longrightarrow>
      shown_items (PDFManager_render pst) = pm_pdfs pst
      \<and> heading_count (PDFManager_render pst) = Some (length (pm_pdfs pst)))
   \<and> shown_items (VideoManager_render (fst (snd (fetchVideos (Inr vdata) (vst, e))))) =
       take 3 vdata
   \<and> heading_count (VideoManager_render (fst (snd (fetchVideos (Inr vdata) (vst, e))))) =
       Some (length vdata)
   \<and> shown_items (PDFManager_render (fst (snd (fetchPDFs (Inr pdata) (pst, e))))) = pdata
   \<and> heading_count (PDFManager_render (fst (snd (fetchPDFs (Inr pdata) (pst, e))))) =
       Some (length pdata)"
  by (simp add: shown_items_video shown_items_pdf heading_count_video heading_count_pdf
      fetchVideos_ok fetchPDFs_ok min.commute)

theorem media_view_shows_first_three_witness:
  "\<not> vm_loading (example_vm\<lparr>vm_videos :=
        map (\<lambda>i. example_video\<lparr>video_id := i\<rparr>) [''1'', ''2'', ''3'', ''4'']\<rparr>)
   \<and> map video_id (shown_items (VideoManager_render (example_vm\<lparr>vm_videos :=
        map (\<lambda>i. example_video\<lparr>video_id := i\<rparr>) [''1'', ''2'', ''3'', ''4'']\<rparr>))) =
      [''1'', ''2'', ''3'']
   \<and> heading_count (VideoManager_render (example_vm\<lparr>vm_videos :=
        map (\<lambda>i. example_video\<lparr>video_id := i\<rparr>) [''1'', ''2'', ''3'', ''4'']\<rparr>)) = Some 4
   \<and> \<not> pm_loading (example_pm\<lparr>pm_pdfs :=
        map (\<lambda>i. example_pdf\<lparr>pdf_id := i\<rparr>) [''1'', ''2'', ''3'', ''4'']\<rparr>)
   \<and> map pdf_id (shown_items (PDFManager_render (example_pm\<lparr>pm_pdfs :=
        map (\<lambda>i. example_pdf\<lparr>pdf_id := i\<rparr>) [''1'', ''2'', ''3'', ''4'']\<rparr>))) =
      [''1'', ''2'', ''3'', ''4'']"
  using media_view_shows_first_three
    [of "example_vm\<lparr>vm_videos :=
           map (\<lambda>i. example_video\<lparr>video_id := i\<rparr>) [''1'', ''2'', ''3'', ''4'']\<rparr>"
        "example_pm\<lparr>pm_pdfs :=
           map (\<lambda>i. example_pdf\<lparr>pdf_id := i\<rparr>) [''1'', ''2'', ''3'', ''4'']\<rparr>"]
  by (simp add: example_vm_def example_pm_def)

section \<open>Submissions\<close>

lemma valid_entries_empty_iff:
  "filter (\<lambda>x. trim x \<noteq> []) xs = [] \<longleftrightarrow> (\<forall>x\<in>set xs. trim x = [])"
  by (simp add: filter_empty_conv)

text \<open>
  Claim C6. When every URL entry and every keyword entry is blank after trimming,
  \<^verbatim>\<open>handleSubmit\<close> alerts and returns before its \<^verbatim>\<open>try\<close> block: the callback is
  not called, no request is issued, and the state is unchanged.
\<close>

theorem blank_submission_fails_locally:
  assumes "\<forall>url\<in>set (si_urls st). trim url = []"
    and "\<forall>keyword\<in>set (si_keywords st). trim keyword = []"
  shows "handleSubmit_begin onScrapeStart (st, e) =
           Done (st, e\<lparr>alerts := alerts e @ [''Please enter at least one URL or keyword'']\<rparr>)
         \<and> handleSubmit onScrapeStart r (st, e) =
           (None, (st, e\<lparr>alerts := alerts e @ [''Please enter at least one URL or keyword'']\<rparr>))
         \<and> requests (snd (snd (handleSubmit onScrapeStart r (st, e)))) = requests e"
  using assms
  by (simp add: handleSubmit_def handleSubmit_begin_def validUrls_def validKeywords_def
      valid_entries_empty_iff alert_def)

theorem blank_submission_fails_locally_witness:
  "trim '' '' = [] \<and> trim '''' = []
   \<and> si_keywords (ScraperInterface_init\<lparr>si_urls := ['' '', '''']\<rparr>) = ['''']
   \<and> handleSubmit handleScrapeStart (Inr \<lparr>scrape_status = ''accepted'', scrape_message = ''ok'',
          scrape_task_id = None\<rparr>)
        (ScraperInterface_init\<lparr>si_urls := ['' '', '''']\<rparr>, example_env) =
      (None, (ScraperInterface_init\<lparr>si_urls := ['' '', '''']\<rparr>,
              example_env\<lparr>alerts := [''Please enter at least one URL or keyword'']\<rparr>))"
proof -
  have u: "\<forall>url\<in>set (si_urls (ScraperInterface_init\<lparr>si_urls := ['' '', '''']\<rparr>)). trim url = []"
    by (simp add: trim_def js_whitespace_def)
  have k: "\<forall>keyword\<in>set (si_keywords (ScraperInterface_init\<lparr>si_urls := ['' '', '''']\<rparr>)).
        trim keyword = []"
    by (simp add: ScraperInterface_init_def trim_def)
  have t: "trim '' '' = [] \<and> trim '''' = []"
    by (simp add: trim_def js_whitespace_def)
  have i: "si_keywords (ScraperInterface_init\<lparr>si_urls := ['' '', '''']\<rparr>) = ['''']"
    by (simp add: ScraperInterface_init_def)
  show ?thesis
    using t i blank_submission_fails_locally [OF u k, of handleScrapeStart example_env
        "Inr \<lparr>scrape_status = ''accepted'', scrape_message = ''ok'', scrape_task_id = None\<rparr>"]
    by (simp add: example_env_def)
qed

lemma trim_nonempty_iff: "trim s \<noteq> [] \<longleftrightarrow> (\<exists>c\<in>set s. \<not> js_whitespace c)"
  by (simp add: trim_eq_Nil_iff)

lemma handleSubmit_begin_valid:
  "\<not> (validUrls st = [] \<and> validKeywords st = []) \<Longrightarrow>
   handleSubmit_begin onScrapeStart (st, e) =
     Await (st\<lparr>si_loading := True\<rparr>,
            (onScrapeStart e)\<lparr>requests := requests (onScrapeStart e) @
               [POST ''/scrape''
                  (Some \<lparr>request_urls = validUrls st, request_keywords = validKeywords st\<rparr>)]\<rparr>)"
  by (auto simp: handleSubmit_begin_def scrapeContent_def)

lemma handleSubmit_begin_invalid:
  "validUrls st = [] \<and> validKeywords st = [] \<Longrightarrow>
   handleSubmit_begin onScrapeStart (st, e) =
     Done (st, alert ''Please enter at least one URL or keyword'' e)"
  by (simp add: handleSubmit_begin_def)

text \<open>
  Claim C3, as stated, fails: the entry \<^verbatim>\<open>" http://a "\<close> is sent with its spaces,
  where trimming would send \<^verbatim>\<open>"http://a"\<close>.
\<close>

theorem submit_sends_trimmed_counterexample:
  "handleSubmit_begin handleScrapeStart
     (ScraperInterface_init\<lparr>si_urls := ['' http://a '']\<rparr>, example_env) =
   Await (ScraperInterface_init\<lparr>si_urls := ['' http://a ''], si_loading := True\<rparr>,
          example_env\<lparr>requests :=
              [POST ''/scrape''
                 (Some \<lparr>request_urls = ['' http://a ''], request_keywords = []\<rparr>)],
            timers := [RefreshTimer]\<rparr>)
   \<and> spec_trimmed_entries ['' http://a ''] = [''http://a'']
   \<and> ['' http://a ''] \<noteq> spec_trimmed_entries ['' http://a '']"
  by (simp add: handleSubmit_begin_def validUrls_def validKeywords_def
      ScraperInterface_init_def example_env_def handleScrapeStart_def setTimeout_def
      scrapeContent_def spec_trimmed_entries_def trim_def js_whitespace_def)

text \<open>
  Claim C3, amended. When some entry is not blank, the request sent holds exactly the
  entries with a character that is not white space, in their order and as they were
  entered: trimming decides which entries are kept, the kept entries are not trimmed.
\<close>

theorem submit_sends_nonblank_entries:
  assumes "(\<exists>url\<in>set (si_urls st). \<exists>c\<in>set url. \<not> js_whitespace c)
           \<or> (\<exists>keyword\<in>set (si_keywords st). \<exists>c\<in>set keyword. \<not> js_whitespace c)"
  shows "handleSubmit_begin onScrapeStart (st, e) =
           Await (st\<lparr>si_loading := True\<rparr>,
                  (onScrapeStart e)\<lparr>requests := requests (onScrapeStart e) @
                     [POST ''/scrape''
                        (Some \<lparr>request_urls =
                                 filter (\<lambda>url. \<exists>c\<in>set url. \<not> js_whitespace c) (si_urls st),
                               request_keywords =
                                 filter (\<lambda>keyword. \<exists>c\<in>set keyword. \<not> js_whitespace c)
                                   (si_keywords st)\<rparr>)]\<rparr>)"
proof -
  have "\<not> (validUrls st = [] \<and> validKeywords st = [])"
    using assms
    by (auto simp: validUrls_def validKeywords_def filter_empty_conv trim_eq_Nil_iff)
  then show ?thesis
    by (simp add: handleSubmit_begin_valid validUrls_def validKeywords_def trim_nonempty_iff)
qed

theorem submit_sends_nonblank_entries_witness:
  "\<not> js_whitespace CHR ''h''
   \<and> handleSubmit_begin handleScrapeStart
       (ScraperInterface_init\<lparr>si_urls := ['' '', ''http://a'']\<rparr>, example_env) =
     Await (ScraperInterface_init\<lparr>si_urls := ['' '', ''http://a''], si_loading := True\<rparr>,
            example_env\<lparr>requests :=
                [POST ''/scrape''
                   (Some \<lparr>request_urls = [''http://a''], request_keywords = []\<rparr>)],
              timers := [RefreshTimer]\<rparr>)"
proof -
  have h: "(\<exists>url\<in>set (si_urls (ScraperInterface_init\<lparr>si_urls := ['' '', ''http://a'']\<rparr>)).
       \<exists>c\<in>set url. \<not> js_whitespace c)
    \<or> (\<exists>keyword\<in>set (si_keywords (ScraperInterface_init\<lparr>si_urls := ['' '', ''http://a'']\<rparr>)).
       \<exists>c\<in>set keyword. \<not> js_whitespace c)"
    by (simp add: js_whitespace_def)
  show ?thesis
    using submit_sends_nonblank_entries [OF h, of handleScrapeStart example_env]
    by (simp add: ScraperInterface_init_def example_env_def handleScrapeStart_def
        setTimeout_def js_whitespace_def)
qed

text \<open>
  Claim C2, as stated, fails: a submission that the transport rejects has set the
  refresh timer all the same.
\<close>

theorem refresh_only_on_success_counterexample:
  "handleSubmit handleScrapeStart (Inl (AxiosError ''Network Error''))
     (ScraperInterface_init\<lparr>si_urls := [''http://a'']\<rparr>, example_env) =
   (None,
    (ScraperInterface_init\<lparr>si_urls := [''http://a'']\<rparr>,
     example_env\<lparr>alerts := [''Failed to start scraping. Please try again.''],
       console_errors := [''Failed to start scraping:''],
       requests :=
         [POST ''/scrape'' (Some \<lparr>request_urls = [''http://a''], request_keywords = []\<rparr>)],
       timers := [RefreshTimer]\<rparr>))"
  by (simp add: handleSubmit_def handleSubmit_begin_def handleSubmit_resume_eq
      validUrls_def validKeywords_def ScraperInterface_init_def example_env_def
      handleScrapeStart_def setTimeout_def scrapeContent_def alert_def console_error_def
      trim_def js_whitespace_def)

text \<open>
  Claim C2, amended. The refresh timer is set when a submission passes the local
  validation, before the request is sent and whatever the transport answers; a
  submission that fails the local validation sets none.
\<close>

theorem refresh_scheduled_at_start:
  "(validUrls st = [] \<and> validKeywords st = [] \<longrightarrow>
      timers (snd (snd (handleSubmit handleScrapeStart r (st, e)))) = timers e)
   \<and> (\<not> (validUrls st = [] \<and> validKeywords st = []) \<longrightarrow>
      (\<exists>st' e'. handleSubmit_begin handleScrapeStart (st, e) = Await (st', e')
         \<and> timers e' = timers e @ [RefreshTimer])
      \<and> timers (snd (snd (handleSubmit handleScrapeStart r (st, e)))) =
          timers e @ [RefreshTimer])"
proof (cases "validUrls st = [] \<and> validKeywords st = []")
  case True
  then show ?thesis
    by (simp add: handleSubmit_def handleSubmit_begin_invalid alert_def)
next
  case False
  note b = handleSubmit_begin_valid [OF False, of handleScrapeStart e]
  have "timers (snd (snd (handleSubmit handleScrapeStart r (st, e)))) =
          timers e @ [RefreshTimer]"
    unfolding handleSubmit_def b
    by (cases r)
      (simp_all add: handleSubmit_resume_eq handleScrapeStart_def setTimeout_def
        alert_def console_error_def)
  moreover have "\<exists>st' e'. handleSubmit_begin handleScrapeStart (st, e) = Await (st', e')
         \<and> timers e' = timers e @ [RefreshTimer]"
    unfolding b by (simp add: handleScrapeStart_def setTimeout_def)
  ultimately show ?thesis using False by blast
qed

theorem refresh_scheduled_at_start_witness:
  "\<not> (validUrls (ScraperInterface_init\<lparr>si_urls := [''http://a'']\<rparr>) = []
       \<and> validKeywords (ScraperInterface_init\<lparr>si_urls := [''http://a'']\<rparr>) = [])
   \<and> timers (snd (snd (handleSubmit handleScrapeStart (Inl (AxiosError ''Network Error''))
        (ScraperInterface_init\<lparr>si_urls := [''http://a'']\<rparr>, example_env)))) = [RefreshTimer]
   \<and> timers (snd (snd (handleSubmit handleScrapeStart
        (Inr \<lparr>scrape_status = ''accepted'', scrape_message = ''ok'', scrape_task_id = None\<rparr>)
        (ScraperInterface_init\<lparr>si_urls := [''http://a'']\<rparr>, example_env)))) = [RefreshTimer]
   \<and> validUrls ScraperInterface_init = [] \<and> validKeywords ScraperInterface_init = []
   \<and> timers (snd (snd (handleSubmit handleScrapeStart (Inl (AxiosError ''Network Error''))
        (ScraperInterface_init, example_env)))) = []"
proof -
  have v: "\<not> (validUrls (ScraperInterface_init\<lparr>si_urls := [''http://a'']\<rparr>) = []
       \<and> validKeywords (ScraperInterface_init\<lparr>si_urls := [''http://a'']\<rparr>) = [])"
    by (simp add: validUrls_def trim_def js_whitespace_def)
  have i: "validUrls ScraperInterface_init = [] \<and> validKeywords ScraperInterface_init = []"
    by (simp add: validUrls_def validKeywords_def ScraperInterface_init_def trim_def)
  show ?thesis
    using v i
      refresh_scheduled_at_start [of "ScraperInterface_init\<lparr>si_urls := [''http://a'']\<rparr>"
        "Inl (AxiosError ''Network Error'')" example_env]
      refresh_scheduled_at_start [of "ScraperInterface_init\<lparr>si_urls := [''http://a'']\<rparr>"
        "Inr \<lparr>scrape_status = ''accepted'', scrape_message = ''ok'', scrape_task_id = None\<rparr>"
        example_env]
      refresh_scheduled_at_start [of ScraperInterface_init
        "Inl (AxiosError ''Network Error'')" example_env]
    by (simp add: example_env_def)
qed

section \<open>The download button\<close>

lemma VideoManager_render_cases:
  "VideoManager_render st = Spinner \<and> vm_loading st
   \<or> VideoManager_render st = EmptyList 0 \<and> \<not> vm_loading st \<and> vm_videos st = []
   \<or> VideoManager_render st =
        Grid (length (vm_videos st)) (map (video_card st) (take 3 (vm_videos st)))
      \<and> \<not> vm_loading st \<and> vm_videos st \<noteq> []"
  by (simp add: VideoManager_render_def)

lemma click_download_video_eq:
  "click_download_video i (st, e) =
     (if \<not> vm_loading st \<and> i < length (take 3 (vm_videos st))
         \<and> truthy (video_minio_object_name (vm_videos st ! i))
         \<and> video_id (vm_videos st ! i) \<notin> vm_downloading st
      then Await (st\<lparr>vm_downloading := insert (video_id (vm_videos st ! i)) (vm_downloading st)\<rparr>,
                  downloadVideo (video_id (vm_videos st ! i)) e)
      else Done (st, e))"
proof -
  consider (spin) "VideoManager_render st = Spinner" "vm_loading st"
    | (empty) "VideoManager_render st = EmptyList 0" "\<not> vm_loading st" "vm_videos st = []"
    | (grid) "VideoManager_render st =
        Grid (length (vm_videos st)) (map (video_card st) (take 3 (vm_videos st)))"
        "\<not> vm_loading st"
    using VideoManager_render_cases [of st] by blast
  then show ?thesis
  proof cases
    case spin
    then show ?thesis by (simp add: click_download_video_def)
  next
    case empty
    then show ?thesis by (simp add: click_download_video_def)
  next
    case grid
    show ?thesis
    proof (cases "i < length (take 3 (vm_videos st))")
      case False
      then show ?thesis using grid by (simp add: click_download_video_def del: length_take)
    next
      case True
      then have c: "map (video_card st) (take 3 (vm_videos st)) ! i = video_card st (vm_videos st ! i)"
        by simp
      show ?thesis
        using grid True
        by (simp add: click_download_video_def c video_card_def handleDownload_video_begin_def
            del: length_take nth_take)
    qed
  qed
qed

lemma PDFManager_render_cases:
  "PDFManager_render st = Spinner \<and> pm_loading st
   \<or> PDFManager_render st = EmptyList 0 \<and> \<not> pm_loading st \<and> pm_pdfs st = []
   \<or> PDFManager_render st = Grid (length (pm_pdfs st)) (map (pdf_card st) (pm_pdfs st))
      \<and> \<not> pm_loading st \<and> pm_pdfs st \<noteq> []"
  by (simp add: PDFManager_render_def)

lemma click_download_pdf_eq:
  "click_download_pdf i (st, e) =
     (if \<not> pm_loading st \<and> i < length (pm_pdfs st)
         \<and> truthy (pdf_minio_object_name (pm_pdfs st ! i))
         \<and> pdf_id (pm_pdfs st ! i) \<notin> pm_downloading st
      then Await (st\<lparr>pm_downloading := insert (pdf_id (pm_pdfs st ! i)) (pm_downloading st)\<rparr>,
                  downloadPDF (pdf_id (pm_pdfs st ! i)) e)
      else Done (st, e))"
proof -
  consider (spin) "PDFManager_render st = Spinner" "pm_loading st"
    | (empty) "PDFManager_render st = EmptyList 0" "\<not> pm_loading st" "pm_pdfs st = []"
    | (grid) "PDFManager_render st = Grid (length (pm_pdfs st)) (map (pdf_card st) (pm_pdfs st))"
        "\<not> pm_loading st"
    using PDFManager_render_cases [of st] by blast
  then show ?thesis
  proof cases
    case spin
    then show ?thesis by (simp add: click_download_pdf_def)
  next
    case empty
    then show ?thesis by (simp add: click_download_pdf_def)
  next
    case grid
    show ?thesis
    proof (cases "i < length (pm_pdfs st)")
      case False
      then show ?thesis using grid by (simp add: click_download_pdf_def)
    next
      case True
      show ?thesis
        using grid True
        by (simp add: click_download_pdf_def pdf_card_def handleDownload_pdf_begin_def)
    qed
  qed
qed

text \<open>
  Claim C1. The guard against a second download of an item is its download button, which
  is disabled while the id is in the in-flight set of the mounted manager. That set is
  state of the manager instance: an instance mounted afresh, after a change of tab or of
  the refresh key, starts with an empty set while the handler of the old instance is
  still waiting for its payload. In the two runs below the user clicks the download
  button of the same video twice, the second time on the new instance. Both calls fetch,
  none is rejected, and the file is saved twice.
\<close>

theorem download_guard_lost_on_remount:
  "app_suspended (fst (run
       [TimerFires SplashTimer, TabClicked videos, ExitCompleted,
        VideosSettled 1 (Inr [example_video]), DownloadClicked 0,
        TabClicked pdfs, ExitCompleted, TabClicked videos, ExitCompleted,
        VideosSettled 3 (Inr [example_video]), DownloadClicked 0]
       (App_mount example_env))) =
     [DownloadVideoOf 1 example_video, FetchPDFsOf 2, DownloadVideoOf 3 example_video]
   \<and> requests (snd (run
       [TimerFires SplashTimer, TabClicked videos, ExitCompleted,
        VideosSettled 1 (Inr [example_video]), DownloadClicked 0,
        TabClicked pdfs, ExitCompleted, TabClicked videos, ExitCompleted,
        VideosSettled 3 (Inr [example_video]), DownloadClicked 0]
       (App_mount example_env))) =
     [GET ''/videos'', GET ''/videos/7/download'', GET ''/pdfs'', GET ''/videos'',
      GET ''/videos/7/download'']
   \<and> saved (snd (run
       [TimerFires SplashTimer, TabClicked videos, ExitCompleted,
        VideosSettled 1 (Inr [example_video]), DownloadClicked 0,
        TabClicked pdfs, ExitCompleted, TabClicked videos, ExitCompleted,
        VideosSettled 3 (Inr [example_video]), DownloadClicked 0,
        VideoDownloadSettled 1 example_video (Inr ''data''),
        VideoDownloadSettled 3 example_video (Inr ''data'')]
       (App_mount example_env))) =
     [(''data'', ''clip.mp4''), (''data'', ''clip.mp4'')]
   \<and> saved (snd (run
       [TimerFires SplashTimer, UrlTyped 0 ''http://a'', FormSubmitted,
        TabClicked videos, ExitCompleted,
        VideosSettled 1 (Inr [example_video]), DownloadClicked 0,
        TimerFires RefreshTimer,
        VideosSettled 2 (Inr [example_video]), DownloadClicked 0,
        VideoDownloadSettled 1 example_video (Inr ''data''),
        VideoDownloadSettled 2 example_video (Inr ''data'')]
       (App_mount example_env))) =
     [(''data'', ''clip.mp4''), (''data'', ''clip.mp4'')]"
  by code_simp

section \<open>The delayed refresh\<close>

lemma mount_content_timers: "timers (snd (mount_content (app, e))) = timers e"
  by (cases "activeTab app")
    (simp_all add: mount_content_def fetchVideos_begin_def fetchPDFs_begin_def
      getVideos_def getPDFs_def)

lemma mount_content_requests:
  "requests (snd (mount_content (app, e))) =
     requests e @
       (case activeTab app of
          videos \<Rightarrow> [GET ''/videos''] | pdfs \<Rightarrow> [GET ''/pdfs''] | _ \<Rightarrow> [])"
  by (cases "activeTab app")
    (simp_all add: mount_content_def fetchVideos_begin_def fetchPDFs_begin_def
      getVideos_def getPDFs_def)

lemma mount_content_videos:
  "activeTab app = videos \<Longrightarrow>
   fst (mount_content (app, e)) =
     app\<lparr>app_content := VideoView (app_instances app) (refreshTrigger app) VideoManager_init,
         app_instances := app_instances app + 1,
         app_suspended := app_suspended app @ [FetchVideosOf (app_instances app)]\<rparr>"
  by (simp add: mount_content_def fetchVideos_begin_def VideoManager_init_def)

lemma mount_content_pdfs:
  "activeTab app = pdfs \<Longrightarrow>
   fst (mount_content (app, e)) =
     app\<lparr>app_content := PdfView (app_instances app) (refreshTrigger app) PDFManager_init,
         app_instances := app_instances app + 1,
         app_suspended := app_suspended app @ [FetchPDFsOf (app_instances app)]\<rparr>"
  by (simp add: mount_content_def fetchPDFs_begin_def PDFManager_init_def)

lemma mount_content_key_current:
  "\<not> isLoading app \<Longrightarrow> key_current (fst (mount_content (app, e)))"
  by (cases "activeTab app")
    (simp_all add: mount_content_def key_current_def split: prod.splits)

lemma renderContent_timers: "timers (snd (renderContent (app, e))) = timers e"
  by (cases "app_content app")
    (simp_all add: renderContent_def mount_content_timers)

lemma renderContent_key_current: "key_current (fst (renderContent (app, e)))"
proof (cases "isLoading app")
  case True
  then show ?thesis by (simp add: renderContent_def key_current_def)
next
  case False
  then show ?thesis
    by (cases "app_content app"; cases "activeTab app")
      (simp_all add: renderContent_def mount_content_key_current, simp_all add: key_current_def)
qed

lemma setActiveTab_timers: "timers (snd (setActiveTab tab s)) = timers (snd s)"
  by (cases s) (simp add: setActiveTab_def renderContent_timers)

lemma exit_complete_timers: "timers (snd (exit_complete s)) = timers (snd s)"
  by (cases s) (simp add: exit_complete_def mount_content_timers split: option.splits)

lemma edit_form_key_current:
  "key_current app \<Longrightarrow> key_current (fst (edit_form f (app, e)))"
  by (cases "app_content app") (simp_all add: edit_form_def key_current_def)

lemma submit_form_key_current:
  "key_current app \<Longrightarrow> key_current (fst (submit_form (app, e)))"
  by (cases "app_content app")
    (auto simp: submit_form_def key_current_def split: step.splits)

lemma click_refresh_key_current:
  "key_current app \<Longrightarrow> key_current (fst (click_refresh (app, e)))"
  by (cases "app_content app")
    (auto simp: click_refresh_def key_current_def split: prod.splits)

lemma click_download_key_current:
  "key_current app \<Longrightarrow> key_current (fst (click_download i (app, e)))"
  by (cases "app_content app")
    (auto simp: click_download_def key_current_def split: step.splits)

lemma submit_settled_key_current:
  "key_current app \<Longrightarrow> key_current (fst (submit_settled n r (app, e)))"
  by (cases "app_content app")
    (auto simp: submit_settled_def key_current_def split: prod.splits)

lemma videos_settled_key_current:
  "key_current app \<Longrightarrow> key_current (fst (videos_settled n r (app, e)))"
  by (cases "app_content app")
    (auto simp: videos_settled_def key_current_def split: prod.splits)

lemma pdfs_settled_key_current:
  "key_current app \<Longrightarrow> key_current (fst (pdfs_settled n r (app, e)))"
  by (cases "app_content app")
    (auto simp: pdfs_settled_def key_current_def split: prod.splits)

lemma video_download_settled_key_current:
  "key_current app \<Longrightarrow> key_current (fst (video_download_settled n v r (app, e)))"
  by (cases "app_content app")
    (auto simp: video_download_settled_def key_current_def split: prod.splits)

lemma pdf_download_settled_key_current:
  "key_current app \<Longrightarrow> key_current (fst (pdf_download_settled n p r (app, e)))"
  by (cases "app_content app")
    (auto simp: pdf_download_settled_def key_current_def split: prod.splits)

lemma fire_timer_key_current:
  "key_current app \<Longrightarrow> key_current (fst (fire_timer t (app, e)))"
  by (cases t) (simp_all add: fire_timer_def Let_def renderContent_key_current)

lemma setActiveTab_key_current:
  "key_current app \<Longrightarrow> key_current (fst (setActiveTab tab (app, e)))"
  by (simp add: setActiveTab_def renderContent_key_current)

lemma exit_complete_key_current:
  "key_current app \<Longrightarrow> key_current (fst (exit_complete (app, e)))"
  by (simp add: exit_complete_def mount_content_key_current split: option.splits)

lemma App_unmount_key_current: "key_current (fst (App_unmount (app, e)))"
  by (simp add: App_unmount_def key_current_def)

lemma dispatch_key_current:
  assumes "key_current (fst s)"
  shows "key_current (fst (dispatch ev s))"
proof -
  obtain app e where s: "s = (app, e)" by (cases s)
  have k: "key_current app" using assms by (simp add: s)
  show ?thesis
    unfolding s
    by (cases ev)
      (simp_all add: k fire_timer_key_current setActiveTab_key_current
        exit_complete_key_current edit_form_key_current submit_form_key_current
        submit_settled_key_current click_refresh_key_current videos_settled_key_current
        pdfs_settled_key_current click_download_key_current
        video_download_settled_key_current pdf_download_settled_key_current
        App_unmount_key_current)
qed

lemma run_key_current: "key_current (fst s) \<Longrightarrow> key_current (fst (run evs s))"
  by (induction evs arbitrary: s) (simp_all add: dispatch_key_current)

lemma App_mount_key_current: "key_current (fst (App_mount e))"
  by (simp add: App_mount_def renderContent_key_current)

lemma reached_key_current: "key_current (fst (run evs (App_mount e)))"
  by (rule run_key_current [OF App_mount_key_current])

lemma fire_refresh_timer:
  assumes k: "key_current app" and m: "app_mounted app"
    and t: "RefreshTimer \<in> set (timers e)"
  shows "timers (snd (fire_timer RefreshTimer (app, e))) = remove1 RefreshTimer (timers e)"
    and "refreshTrigger (fst (fire_timer RefreshTimer (app, e))) = refreshTrigger app + 1"
    and "requests (snd (fire_timer RefreshTimer (app, e))) =
           requests e @
             (if videos_present app then [GET ''/videos'']
              else if pdfs_present app then [GET ''/pdfs''] else [])"
    and "app_content (fst (fire_timer RefreshTimer (app, e))) =
           (if videos_present app
            then VideoView (app_instances app) (refreshTrigger app + 1) VideoManager_init
            else if pdfs_present app
            then PdfView (app_instances app) (refreshTrigger app + 1) PDFManager_init
            else app_content app)"
proof -
  let ?app = "app\<lparr>refreshTrigger := refreshTrigger app + 1\<rparr>"
  let ?e = "e\<lparr>timers := remove1 RefreshTimer (timers e)\<rparr>"
  have f: "fire_timer RefreshTimer (app, e) = renderContent (?app, ?e)"
    using m t by (simp add: fire_timer_def Let_def)
  show "timers (snd (fire_timer RefreshTimer (app, e))) = remove1 RefreshTimer (timers e)"
    unfolding f by (simp add: renderContent_timers)
  have r: "renderContent (?app, ?e) =
      (if videos_present app \<or> pdfs_present app then mount_content (?app, ?e)
       else (?app, ?e))"
    using k m
    by (cases "app_content app"; cases "activeTab app")
      (auto simp: renderContent_def key_current_def videos_present_def pdfs_present_def)
  show "refreshTrigger (fst (fire_timer RefreshTimer (app, e))) = refreshTrigger app + 1"
    unfolding f r
    by (cases "app_content app")
      (auto simp: videos_present_def pdfs_present_def mount_content_videos
        mount_content_pdfs)
  show "requests (snd (fire_timer RefreshTimer (app, e))) =
           requests e @
             (if videos_present app then [GET ''/videos'']
              else if pdfs_present app then [GET ''/pdfs''] else [])"
    unfolding f r
    by (cases "app_content app")
      (auto simp: videos_present_def pdfs_present_def mount_content_requests)
  show "app_content (fst (fire_timer RefreshTimer (app, e))) =
           (if videos_present app
            then VideoView (app_instances app) (refreshTrigger app + 1) VideoManager_init
            else if pdfs_present app
            then PdfView (app_instances app) (refreshTrigger app + 1) PDFManager_init
            else app_content app)"
    unfolding f r
    by (cases "app_content app")
      (auto simp: videos_present_def pdfs_present_def mount_content_videos
        mount_content_pdfs)
qed

text \<open>
  What a resumed handler does to the environment does not depend on the state of its
  instance.
\<close>

lemma resume_env_independent:
  "snd (snd (handleDownload_video_resume v rb (vst, e))) =
     snd (snd (handleDownload_video_resume v rb (VideoManager_init, e)))"
  "snd (snd (handleDownload_pdf_resume p rb (pst, e))) =
     snd (snd (handleDownload_pdf_resume p rb (PDFManager_init, e)))"
  "snd (snd (fetchVideos_resume rv (vst, e))) =
     snd (snd (fetchVideos_resume rv (VideoManager_init, e)))"
  "snd (snd (fetchPDFs_resume rp (pst, e))) =
     snd (snd (fetchPDFs_resume rp (PDFManager_init, e)))"
  "snd (snd (handleSubmit_resume rs (sst, e))) =
     snd (snd (handleSubmit_resume rs (ScraperInterface_init, e)))"
  by (simp_all add: handleDownload_video_resume_eq handleDownload_pdf_resume_eq
      fetchVideos_resume_eq fetchPDFs_resume_eq handleSubmit_resume_eq split: sum.splits)

text \<open>
  Claim C7, as stated, fails: after a submission the user leaves the scraper tab, the
  submitting view is unmounted when its exit animation ends, and the refresh timer is
  still pending; when it fires, the video list is fetched again.
\<close>

theorem teardown_cancels_refresh_counterexample:
  "timers (snd (run [TimerFires SplashTimer, UrlTyped 0 ''http://a'', FormSubmitted,
                     TabClicked videos, ExitCompleted] (App_mount example_env))) =
     [RefreshTimer]
   \<and> app_content (fst (run [TimerFires SplashTimer, UrlTyped 0 ''http://a'', FormSubmitted,
                            TabClicked videos, ExitCompleted] (App_mount example_env))) =
     VideoView 1 0 VideoManager_init
   \<and> requests (snd (run [TimerFires SplashTimer, UrlTyped 0 ''http://a'', FormSubmitted,
                         TabClicked videos, ExitCompleted] (App_mount example_env))) =
     [POST ''/scrape'' (Some \<lparr>request_urls = [''http://a''], request_keywords = []\<rparr>),
      GET ''/videos'']
   \<and> requests (snd (run [TimerFires SplashTimer, UrlTyped 0 ''http://a'', FormSubmitted,
                         TabClicked videos, ExitCompleted, TimerFires RefreshTimer]
                     (App_mount example_env))) =
     [POST ''/scrape'' (Some \<lparr>request_urls = [''http://a''], request_keywords = []\<rparr>),
      GET ''/videos'', GET ''/videos'']"
  by code_simp

text \<open>
  Claim C7, amended. In every state the page reaches, a click on a tab and the end of an
  exit animation, which unmounts the view that is leaving, keep the pending timers as
  they are. When the refresh timer fires in a mounted App it leaves the list and the
  refresh trigger grows by one. If the videos or the pdfs manager is then mounted as the
  view of the active tab, it is replaced by a new instance in its initial state, under
  the new key, and exactly one list request is issued. Otherwise, with the scraper or the
  reports view shown or with the view of the previous tab still leaving, no request is
  issued and the mounted view stays as it is.
\<close>

theorem refresh_timer_survives_tab_changes:
  assumes "s = run evs (App_mount e0)"
  shows "timers (snd (setActiveTab tab s)) = timers (snd s)
         \<and> timers (snd (exit_complete s)) = timers (snd s)
         \<and> (app_mounted (fst s) \<and> RefreshTimer \<in> set (timers (snd s)) \<longrightarrow>
              timers (snd (fire_timer RefreshTimer s)) = remove1 RefreshTimer (timers (snd s))
              \<and> refreshTrigger (fst (fire_timer RefreshTimer s)) = refreshTrigger (fst s) + 1
              \<and> requests (snd (fire_timer RefreshTimer s)) =
                  requests (snd s) @
                    (if videos_present (fst s) then [GET ''/videos'']
                     else if pdfs_present (fst s) then [GET ''/pdfs''] else [])
              \<and> app_content (fst (fire_timer RefreshTimer s)) =
                  (if videos_present (fst s)
                   then VideoView (app_instances (fst s)) (refreshTrigger (fst s) + 1)
                          VideoManager_init
                   else if pdfs_present (fst s)
                   then PdfView (app_instances (fst s)) (refreshTrigger (fst s) + 1)
                          PDFManager_init
                   else app_content (fst s)))"
proof -
  obtain app e where s: "s = (app, e)" by (cases s)
  have "key_current (fst s)"
    unfolding assms by (rule reached_key_current)
  then have k: "key_current app"
    by (simp add: s)
  show ?thesis
  proof (intro conjI impI)
    show "timers (snd (setActiveTab tab s)) = timers (snd s)"
      by (rule setActiveTab_timers)
    show "timers (snd (exit_complete s)) = timers (snd s)"
      by (rule exit_complete_timers)
  next
    assume "app_mounted (fst s) \<and> RefreshTimer \<in> set (timers (snd s))"
    then have m: "app_mounted app" and t: "RefreshTimer \<in> set (timers e)"
      by (simp_all add: s)
    note f = fire_refresh_timer [OF k m t]
    show "timers (snd (fire_timer RefreshTimer s)) = remove1 RefreshTimer (timers (snd s))"
      using f(1) by (simp add: s)
    show "refreshTrigger (fst (fire_timer RefreshTimer s)) = refreshTrigger (fst s) + 1"
      using f(2) by (simp add: s)
    show "requests (snd (fire_timer RefreshTimer s)) =
                  requests (snd s) @
                    (if videos_present (fst s) then [GET ''/videos'']
                     else if pdfs_present (fst s) then [GET ''/pdfs''] else [])"
      using f(3) by (simp add: s)
    show "app_content (fst (fire_timer RefreshTimer s)) =
                  (if videos_present (fst s)
                   then VideoView (app_instances (fst s)) (refreshTrigger (fst s) + 1)
                          VideoManager_init
                   else if pdfs_present (fst s)
                   then PdfView (app_instances (fst s)) (refreshTrigger (fst s) + 1)
                          PDFManager_init
                   else app_content (fst s))"
      using f(4) by (simp add: s)
  qed
qed

theorem refresh_timer_survives_tab_changes_witness:
  "app_mounted (fst (run [TimerFires SplashTimer, UrlTyped 0 ''http://a'', FormSubmitted,
       TabClicked pdfs, ExitCompleted, PDFsSettled 1 (Inr [example_pdf])]
       (App_mount example_env)))
   \<and> timers (snd (run [TimerFires SplashTimer, UrlTyped 0 ''http://a'', FormSubmitted,
       TabClicked pdfs, ExitCompleted, PDFsSettled 1 (Inr [example_pdf])]
       (App_mount example_env))) = [RefreshTimer]
   \<and> pdfs_present (fst (run [TimerFires SplashTimer, UrlTyped 0 ''http://a'', FormSubmitted,
       TabClicked pdfs, ExitCompleted, PDFsSettled 1 (Inr [example_pdf])]
       (App_mount example_env)))
   \<and> timers (snd (setActiveTab scraper
       (run [TimerFires SplashTimer, UrlTyped 0 ''http://a'', FormSubmitted,
         TabClicked pdfs, ExitCompleted, PDFsSettled 1 (Inr [example_pdf])]
         (App_mount example_env)))) = [RefreshTimer]
   \<and> timers (snd (fire_timer RefreshTimer
       (run [TimerFires SplashTimer, UrlTyped 0 ''http://a'', FormSubmitted,
         TabClicked pdfs, ExitCompleted, PDFsSettled 1 (Inr [example_pdf])]
         (App_mount example_env)))) = []
   \<and> requests (snd (fire_timer RefreshTimer
       (run [TimerFires SplashTimer, UrlTyped 0 ''http://a'', FormSubmitted,
         TabClicked pdfs, ExitCompleted, PDFsSettled 1 (Inr [example_pdf])]
         (App_mount example_env)))) =
     [POST ''/scrape'' (Some \<lparr>request_urls = [''http://a''], request_keywords = []\<rparr>),
      GET ''/pdfs'', GET ''/pdfs'']
   \<and> app_content (fst (fire_timer RefreshTimer
       (run [TimerFires SplashTimer, UrlTyped 0 ''http://a'', FormSubmitted,
         TabClicked pdfs, ExitCompleted, PDFsSettled 1 (Inr [example_pdf])]
         (App_mount example_env)))) = PdfView 2 1 PDFManager_init"
proof -
  define s where "s = run [TimerFires SplashTimer, UrlTyped 0 ''http://a'', FormSubmitted,
       TabClicked pdfs, ExitCompleted, PDFsSettled 1 (Inr [example_pdf])]
       (App_mount example_env)"
  have m: "app_mounted (fst s)"
    unfolding s_def by code_simp
  have t: "timers (snd s) = [RefreshTimer]"
    unfolding s_def by code_simp
  have p: "pdfs_present (fst s)"
    unfolding s_def by code_simp
  have v: "\<not> videos_present (fst s)"
    unfolding s_def by code_simp
  have r: "requests (snd s) =
     [POST ''/scrape'' (Some \<lparr>request_urls = [''http://a''], request_keywords = []\<rparr>),
      GET ''/pdfs'']"
    unfolding s_def by code_simp
  have i: "app_instances (fst s) = 2"
    unfolding s_def by code_simp
  have g: "refreshTrigger (fst s) = 0"
    unfolding s_def by code_simp
  note th = refresh_timer_survives_tab_changes [where tab = scraper, OF s_def]
  have c: "app_mounted (fst s) \<and> RefreshTimer \<in> set (timers (snd s))"
    using m by (simp add: t)
  from th have "timers (snd (setActiveTab scraper s)) = timers (snd s)"
    by blast
  then have f1: "timers (snd (setActiveTab scraper s)) = [RefreshTimer]"
    by (simp only: t)
  from th c have "timers (snd (fire_timer RefreshTimer s)) =
      remove1 RefreshTimer (timers (snd s))"
    by blast
  then have f2: "timers (snd (fire_timer RefreshTimer s)) = []"
    by (simp add: t)
  from th c have "requests (snd (fire_timer RefreshTimer s)) =
       requests (snd s) @
         (if videos_present (fst s) then [GET ''/videos'']
          else if pdfs_present (fst s) then [GET ''/pdfs''] else [])"
    by blast
  then have f3: "requests (snd (fire_timer RefreshTimer s)) =
     [POST ''/scrape'' (Some \<lparr>request_urls = [''http://a''], request_keywords = []\<rparr>),
      GET ''/pdfs'', GET ''/pdfs'']"
    by (simp add: r p v)
  from th c have "app_content (fst (fire_timer RefreshTimer s)) =
       (if videos_present (fst s)
        then VideoView (app_instances (fst s)) (refreshTrigger (fst s) + 1) VideoManager_init
        else if pdfs_present (fst s)
        then PdfView (app_instances (fst s)) (refreshTrigger (fst s) + 1) PDFManager_init
        else app_content (fst s))"
    by blast
  then have f4: "app_content (fst (fire_timer RefreshTimer s)) = PdfView 2 1 PDFManager_init"
    by (simp add: p v i g)
  from m t p f1 f2 f3 f4 show ?thesis
    unfolding s_def by blast
qed

section \<open>Download file names\<close>

text \<open>
  Claim C8. The name is taken from the text after the last \<^verbatim>\<open>/\<close> of the whole URL,
  not of its path: a query string stays in the name, and for a URL without a path the
  host name is used and the fallback is not reached. The two examples of the claim hold.
\<close>

theorem download_filename_splits_whole_url:
  "pdf_download_filename (example_pdf\<lparr>pdf_url := ''https://x.org/report.pdf?dl=1''\<rparr>) =
     ''report.pdf?dl=1''
   \<and> pdf_download_filename (example_pdf\<lparr>pdf_url := ''https://x.org''\<rparr>) = ''x.org''
   \<and> video_download_filename
       (example_video\<lparr>video_url := ''https://www.youtube.com/watch?v=abc''\<rparr>) = ''watch?v=abc''
   \<and> pdf_download_filename (example_pdf\<lparr>pdf_url := ''https://x.org/report.pdf''\<rparr>) =
     ''report.pdf''
   \<and> pdf_download_filename (example_pdf\<lparr>pdf_url := ''https://x.org/''\<rparr>) = ''document_7.pdf''"
  by (simp add: pdf_download_filename_def video_download_filename_def example_pdf_def
      example_video_def pop_def)

end
